theory Spec2Isabelle
  imports Complex_Main
begin

unbundle bit_operations_syntax

section \<open>tools/bench_iterated_f.py: data model\<close>

text \<open>
  The two \<^verbatim>\<open>NamedTuple\<close> classes of the script. Python integers are unbounded, so
  \<open>lanes\<close> and \<open>iterations\<close> are \<open>int\<close>. The three times of a result are Python
  floats; their type is the parameter \<open>'f\<close>, and the float operations the script applies
  to them are passed in (see \<open>pyops\<close> below), so that nothing is assumed about rounding.
\<close>

record BenchConfig =
  lanes :: int
  iterations :: int

record 'f BenchResult =
  config :: BenchConfig
  witness_time_ms :: 'f
  proof_time_ms :: 'f
  verify_time_ms :: 'f

text \<open>\<^verbatim>\<open>BENCH_CONFIGS\<close>, entry by entry, with \<^verbatim>\<open>2**k\<close> written as \<open>2 ^ k\<close>.\<close>

definition BENCH_CONFIGS :: "BenchConfig list" where
  "BENCH_CONFIGS =
    [\<lparr>lanes = 1, iterations = 2 ^ 13\<rparr>,
     \<lparr>lanes = 1, iterations = 2 ^ 14\<rparr>,
     \<lparr>lanes = 1, iterations = 2 ^ 15\<rparr>,
     \<lparr>lanes = 1, iterations = 2 ^ 16\<rparr>,
     \<lparr>lanes = 1, iterations = 2 ^ 17\<rparr>,
     \<lparr>lanes = 4, iterations = 2 ^ 11\<rparr>,
     \<lparr>lanes = 4, iterations = 2 ^ 12\<rparr>,
     \<lparr>lanes = 4, iterations = 2 ^ 13\<rparr>,
     \<lparr>lanes = 4, iterations = 2 ^ 14\<rparr>,
     \<lparr>lanes = 4, iterations = 2 ^ 15\<rparr>,
     \<lparr>lanes = 16, iterations = 2 ^ 9\<rparr>,
     \<lparr>lanes = 16, iterations = 2 ^ 10\<rparr>,
     \<lparr>lanes = 16, iterations = 2 ^ 11\<rparr>,
     \<lparr>lanes = 16, iterations = 2 ^ 12\<rparr>,
     \<lparr>lanes = 16, iterations = 2 ^ 13\<rparr>]"

section \<open>Python built-ins the script relies on\<close>

text \<open>\<^verbatim>\<open>str(n)\<close> on an integer: decimal digits, most significant first, \<^verbatim>\<open>-\<close> in front
  of a negative number.\<close>

definition digit :: "nat \<Rightarrow> char" where
  "digit d = ''0123456789'' ! d"

fun str_nat :: "nat \<Rightarrow> string" where
  "str_nat n = (if n < 10 then [digit n] else str_nat (n div 10) @ [digit (n mod 10)])"

declare str_nat.simps [simp del]

definition str_int :: "int \<Rightarrow> string" where
  "str_int i = (if i < 0 then CHR ''-'' # str_nat (nat (- i)) else str_nat (nat i))"

text \<open>\<^verbatim>\<open>s.startswith(p)\<close>.\<close>

definition startswith :: "string \<Rightarrow> string \<Rightarrow> bool" where
  "startswith s p = (take (length p) s = p)"

text \<open>\<^verbatim>\<open>"\n".join(lines)\<close>.\<close>

fun join_lines :: "string list \<Rightarrow> string" where
  "join_lines [] = []"
| "join_lines [l] = l"
| "join_lines (l # m # ls) = l @ [CHR 0x0A] @ join_lines (m # ls)"

text \<open>
  What \<^verbatim>\<open>json.load\<close> returns: \<^verbatim>\<open>None\<close>, a bool, an int, a float, a str, a list or a
  dict with string keys. A dict is an association list read with \<open>map_of\<close>.
\<close>

datatype 'f py =
    PyNone
  | PyBool bool
  | PyInt int
  | PyFloat 'f
  | PyStr string
  | PyList "'f py list"
  | PyDict "(string \<times> 'f py) list"

text \<open>The exceptions that can leave the functions modelled here.\<close>

datatype exn =
    KeyError string
  | JSONDecodeError string
  | TypeError
  | NotADirectoryError
  | IsADirectoryError
  | FileNotFoundError
  | UnicodeDecodeError
  | RecursionError
  | OSError
  | OtherError string

text \<open>\<^verbatim>\<open>str(e)\<close> for the two exceptions the script prints: the message of a
  \<^verbatim>\<open>JSONDecodeError\<close>, the \<^verbatim>\<open>repr\<close> of the key of a \<^verbatim>\<open>KeyError\<close>.\<close>

fun exn_str :: "exn \<Rightarrow> string" where
  "exn_str (KeyError k) = [CHR 0x27] @ k @ [CHR 0x27]"
| "exn_str (JSONDecodeError msg) = msg"
| "exn_str (OtherError msg) = msg"
| "exn_str _ = []"

text \<open>
  \<^verbatim>\<open>value[key]\<close> with a string key: a dict looks the key up and raises \<^verbatim>\<open>KeyError\<close> when
  it is missing; a list and a str want integer indices, and \<^verbatim>\<open>None\<close>, bools and numbers
  are not subscriptable: all of those raise \<^verbatim>\<open>TypeError\<close>.
\<close>

fun getitem :: "'f py \<Rightarrow> string \<Rightarrow> exn + 'f py" where
  "getitem (PyDict kvs) k = (case map_of kvs k of None \<Rightarrow> Inl (KeyError k) | Some v \<Rightarrow> Inr v)"
| "getitem _ k = Inl TypeError"

section \<open>The file system\<close>

text \<open>
  A path is the list of its components; \<^verbatim>\<open>p / "a" / "b"\<close> appends components. The file
  system is a tree. A directory lists its children in the order in which \<^verbatim>\<open>iterdir\<close>
  enumerates them. A regular file is represented by what \<^verbatim>\<open>open\<close> and \<^verbatim>\<open>json.load\<close> make
  of it: the message of the \<^verbatim>\<open>JSONDecodeError\<close> that \<^verbatim>\<open>json.load\<close> raises (\<open>Garbled\<close>), any
  other exception that opening, reading or decoding the file raises (\<open>Unreadable\<close>:
  \<^verbatim>\<open>UnicodeDecodeError\<close> on bytes that are not UTF-8, \<^verbatim>\<open>RecursionError\<close> on nesting that is
  too deep, \<^verbatim>\<open>OSError\<close> on a file that cannot be read), or the value \<^verbatim>\<open>json.load\<close> returns.
\<close>

type_synonym path = "string list"

datatype 'f content = Garbled string | Unreadable exn | Json "'f py"

datatype 'f node = File "'f content" | Dir "(string \<times> 'f node) list"

fun lookup :: "'f node \<Rightarrow> path \<Rightarrow> 'f node option" where
  "lookup n [] = Some n"
| "lookup n (c # cs) =
     (case n of
        File _ \<Rightarrow> None
      | Dir es \<Rightarrow> (case map_of es c of None \<Rightarrow> None | Some m \<Rightarrow> lookup m cs))"

definition exists :: "'f node \<Rightarrow> path \<Rightarrow> bool" where
  "exists tree p = (lookup tree p \<noteq> None)"

fun is_directory :: "'f node \<Rightarrow> bool" where
  "is_directory (Dir _) = True"
| "is_directory (File _) = False"

definition is_dir :: "'f node \<Rightarrow> path \<Rightarrow> bool" where
  "is_dir tree p = (case lookup tree p of Some n \<Rightarrow> is_directory n | None \<Rightarrow> False)"

definition iterdir :: "'f node \<Rightarrow> path \<Rightarrow> exn + path list" where
  "iterdir tree p =
     (case lookup tree p of
        None \<Rightarrow> Inl FileNotFoundError
      | Some (File _) \<Rightarrow> Inl NotADirectoryError
      | Some (Dir es) \<Rightarrow> Inr (map (\<lambda>e. p @ [fst e]) es))"

text \<open>\<^verbatim>\<open>entry.name\<close>: the last component.\<close>

definition name :: "path \<Rightarrow> string" where
  "name p = (if p = [] then [] else last p)"

text \<open>\<^verbatim>\<open>str(path)\<close>: the components joined by \<^verbatim>\<open>/\<close>.\<close>

fun path_str :: "path \<Rightarrow> string" where
  "path_str [] = ''.''"
| "path_str [c] = c"
| "path_str (c # d # cs) = c @ ''/'' @ path_str (d # cs)"

section \<open>Result collector\<close>

text \<open>The prefix \<^verbatim>\<open>find_benchmark_dir\<close> computes from the configuration.\<close>

definition dir_prefix :: "BenchConfig \<Rightarrow> string" where
  "dir_prefix cfg =
     (if lanes cfg = 1 then ''iterations_'' @ str_int (iterations cfg) @ ''_''
      else ''iterations_'' @ str_int (iterations cfg) @ ''_lanes_'' @ str_int (lanes cfg) @ ''_'')"

definition find_benchmark_dir :: "'f node \<Rightarrow> path \<Rightarrow> string \<Rightarrow> BenchConfig \<Rightarrow> exn + path option" where
  "find_benchmark_dir tree workspace phase cfg =
     (let criterion_dir = workspace @ [''target'', ''criterion'', ''iterated_f_'' @ phase] in
      if \<not> exists tree criterion_dir then Inr None
      else
        (case iterdir tree criterion_dir of
           Inl e \<Rightarrow> Inl e
         | Inr entries \<Rightarrow>
             Inr (find (\<lambda>entry. is_dir tree entry \<and> startswith (name entry) (dir_prefix cfg))
                    entries)))"

section \<open>What the script takes from its platform\<close>

text \<open>
  The float operations of Python, the child process and the write of the output file are
  not code of the script. They are passed in as a record, and every theorem holds for all
  of them:
  \<^item> \<open>truediv v d\<close> is \<^verbatim>\<open>v / d\<close> for a loaded value \<open>v\<close> and an int \<open>d\<close> (a float, or the
    exception Python raises);
  \<^item> \<open>flt_lt\<close>, \<open>flt_mul\<close>, \<open>flt_div\<close> are \<^verbatim>\<open><\<close>, \<^verbatim>\<open>*\<close> and \<^verbatim>\<open>/\<close> of a float and an
    int, \<open>flt_fixed k x\<close> is \<^verbatim>\<open>f"{x:.kf}"\<close>;
  \<^item> \<open>subprocess_run argv cwd env tree\<close> runs the child on the file system \<open>tree\<close> and gives
    its return code, its captured error stream and the file system it leaves, or the
    exception \<^verbatim>\<open>subprocess.run\<close> raises;
  \<^item> \<open>write_text p s tree\<close> is \<^verbatim>\<open>p.write_text(s)\<close>.
\<close>

record 'f platform =
  truediv :: "'f py \<Rightarrow> int \<Rightarrow> exn + 'f"
  flt_lt :: "'f \<Rightarrow> int \<Rightarrow> bool"
  flt_mul :: "'f \<Rightarrow> int \<Rightarrow> 'f"
  flt_div :: "'f \<Rightarrow> int \<Rightarrow> 'f"
  flt_fixed :: "nat \<Rightarrow> 'f \<Rightarrow> string"
  subprocess_run :: "string list \<Rightarrow> path \<Rightarrow> (string \<rightharpoonup> string) \<Rightarrow> 'f node \<Rightarrow> exn + (int \<times> string \<times> 'f node)"
  write_text :: "path \<Rightarrow> string \<Rightarrow> 'f node \<Rightarrow> exn + 'f node"

text \<open>
  The state the script works on: the file system, \<^verbatim>\<open>os.environ\<close>, the lines printed to
  the two output streams, and the child processes started so far (with the return code of
  each, \<open>None\<close> when \<^verbatim>\<open>subprocess.run\<close> raised).
\<close>

record invocation =
  argv :: "string list"
  cwd :: path
  env :: "string \<rightharpoonup> string"
  returncode :: "int option"

record 'f world =
  fs :: "'f node"
  environ :: "string \<rightharpoonup> string"
  stdout :: "string list"
  stderr :: "string list"
  spawned :: "invocation list"

definition print_out :: "string \<Rightarrow> 'f world \<Rightarrow> 'f world" where
  "print_out s w = w\<lparr>stdout := stdout w @ [s]\<rparr>"

definition print_err :: "string \<Rightarrow> 'f world \<Rightarrow> 'f world" where
  "print_err s w = w\<lparr>stderr := stderr w @ [s]\<rparr>"

text \<open>\<^verbatim>\<open>repr(config)\<close>, as the f-strings print it.\<close>

definition config_repr :: "BenchConfig \<Rightarrow> string" where
  "config_repr cfg =
     ''BenchConfig(lanes='' @ str_int (lanes cfg) @ '', iterations='' @ str_int (iterations cfg) @ '')''"

section \<open>Benchmark runner\<close>

text \<open>The environment \<^verbatim>\<open>run_benchmark\<close> builds: a copy of \<^verbatim>\<open>os.environ\<close> with three
  assignments, in the order of the source.\<close>

definition bench_env :: "(string \<rightharpoonup> string) \<Rightarrow> BenchConfig \<Rightarrow> (string \<rightharpoonup> string)" where
  "bench_env os_environ cfg =
     (let env1 = os_environ(''ITERATIONS'' \<mapsto> str_int (iterations cfg));
          env2 = env1(''LANES'' \<mapsto> str_int (lanes cfg))
      in env2(''RUSTFLAGS'' \<mapsto>
           (case env2 ''RUSTFLAGS'' of None \<Rightarrow> [] | Some v \<Rightarrow> v) @ '' -C target-cpu=native''))"

definition cargo_argv :: "string list" where
  "cargo_argv = [''cargo'', ''bench'', ''-p'', ''binius-examples'', ''--bench'', ''iterated_f'', ''--'', ''--noplot'']"

definition run_benchmark ::
  "'f platform \<Rightarrow> path \<Rightarrow> BenchConfig \<Rightarrow> 'f world \<Rightarrow> (exn + bool) \<times> 'f world" where
  "run_benchmark plat workspace cfg w =
     (let env' = bench_env (environ w) cfg;
          w1 = print_out (''Running benchmark: lanes='' @ str_int (lanes cfg)
                 @ '', iterations='' @ str_int (iterations cfg)) w
      in case subprocess_run plat cargo_argv workspace env' (fs w1) of
           Inl e \<Rightarrow>
             (Inl e, w1\<lparr>spawned := spawned w1 @
                [\<lparr>argv = cargo_argv, cwd = workspace, env = env', returncode = None\<rparr>]\<rparr>)
         | Inr (rc, captured_err, tree') \<Rightarrow>
             (let w2 = w1\<lparr>fs := tree', spawned := spawned w1 @
                [\<lparr>argv = cargo_argv, cwd = workspace, env = env', returncode = Some rc\<rparr>]\<rparr>
              in if rc \<noteq> 0 then (Inr False, print_err (''Benchmark failed: '' @ captured_err) w2)
                 else (Inr True, w2)))"

section \<open>Reading one timing\<close>

text \<open>The body of the \<^verbatim>\<open>try\<close> block: open the file, load it, subscript twice, divide.\<close>

definition load_estimate :: "'f platform \<Rightarrow> 'f node \<Rightarrow> path \<Rightarrow> exn + 'f" where
  "load_estimate plat tree estimates_file =
     (case lookup tree estimates_file of
        None \<Rightarrow> Inl FileNotFoundError
      | Some (Dir _) \<Rightarrow> Inl IsADirectoryError
      | Some (File (Garbled msg)) \<Rightarrow> Inl (JSONDecodeError msg)
      | Some (File (Unreadable e)) \<Rightarrow> Inl e
      | Some (File (Json data)) \<Rightarrow>
          (case getitem data ''mean'' of
             Inl e \<Rightarrow> Inl e
           | Inr mean \<Rightarrow>
               (case getitem mean ''point_estimate'' of
                  Inl e \<Rightarrow> Inl e
                | Inr v \<Rightarrow> truediv plat v 1000000)))"

text \<open>The \<^verbatim>\<open>except (json.JSONDecodeError, KeyError)\<close> clause catches these two only.\<close>

fun caught :: "exn \<Rightarrow> bool" where
  "caught (JSONDecodeError _) = True"
| "caught (KeyError _) = True"
| "caught _ = False"

definition read_benchmark_time ::
  "'f platform \<Rightarrow> path \<Rightarrow> 'f world \<Rightarrow> (exn + 'f option) \<times> 'f world" where
  "read_benchmark_time plat bench_dir w =
     (let estimates_file = bench_dir @ [''new'', ''estimates.json''] in
      if \<not> exists (fs w) estimates_file then (Inr None, w)
      else
        (case load_estimate plat (fs w) estimates_file of
           Inr t \<Rightarrow> (Inr (Some t), w)
         | Inl e \<Rightarrow>
             if caught e
             then (Inr None,
                   print_err (''Error reading '' @ path_str estimates_file @ '': '' @ exn_str e) w)
             else (Inl e, w)))"

section \<open>Collecting the three phases\<close>

definition phases :: "string list" where
  "phases = [''witness_generation'', ''proof_generation'', ''proof_verification'']"

text \<open>The \<^verbatim>\<open>for phase in phases\<close> loop, with the list \<^verbatim>\<open>times\<close> as the accumulator \<open>timings\<close>.\<close>

fun collect_times ::
  "'f platform \<Rightarrow> path \<Rightarrow> BenchConfig \<Rightarrow> string list \<Rightarrow> 'f list \<Rightarrow> 'f world
     \<Rightarrow> (exn + 'f list option) \<times> 'f world" where
  "collect_times plat workspace cfg [] timings w = (Inr (Some timings), w)"
| "collect_times plat workspace cfg (phase # rest) timings w =
     (case find_benchmark_dir (fs w) workspace phase cfg of
        Inl e \<Rightarrow> (Inl e, w)
      | Inr None \<Rightarrow>
          (Inr None,
           print_out (''Warning: No benchmark dir found for '' @ phase @ '' with config ''
                        @ config_repr cfg) w)
      | Inr (Some bench_dir) \<Rightarrow>
          (case read_benchmark_time plat bench_dir w of
             (Inl e, w') \<Rightarrow> (Inl e, w')
           | (Inr None, w') \<Rightarrow> (Inr None, w')
           | (Inr (Some time_ms), w') \<Rightarrow>
               collect_times plat workspace cfg rest (timings @ [time_ms]) w'))"

definition collect_results ::
  "'f platform \<Rightarrow> path \<Rightarrow> BenchConfig \<Rightarrow> 'f world \<Rightarrow> (exn + 'f BenchResult option) \<times> 'f world" where
  "collect_results plat workspace cfg w =
     (case collect_times plat workspace cfg phases [] w of
        (Inl e, w') \<Rightarrow> (Inl e, w')
      | (Inr None, w') \<Rightarrow> (Inr None, w')
      | (Inr (Some timings), w') \<Rightarrow>
          (Inr (Some \<lparr>config = cfg, witness_time_ms = timings ! 0,
                       proof_time_ms = timings ! 1, verify_time_ms = timings ! 2\<rparr>), w'))"

section \<open>Report generator\<close>

text \<open>\<^verbatim>\<open>format_time\<close>; the micro sign is written as its two UTF-8 bytes.\<close>

definition format_time :: "'f platform \<Rightarrow> 'f \<Rightarrow> string" where
  "format_time plat time_ms =
     (if flt_lt plat time_ms 1
      then flt_fixed plat 1 (flt_mul plat time_ms 1000) @ [CHR '' '', CHR 0xC2, CHR 0xB5, CHR ''s'']
      else if flt_lt plat time_ms 1000 then flt_fixed plat 1 time_ms @ '' ms''
      else flt_fixed plat 2 (flt_div plat time_ms 1000) @ '' s'')"

text \<open>
  \<^verbatim>\<open>int(math.log2(n))\<close> is only evaluated on a positive integer with a single set bit,
  where \<^verbatim>\<open>math.log2\<close> returns the exponent as a float without rounding; \<open>ilog2\<close> is the
  integer logarithm.
\<close>

fun ilog2 :: "nat \<Rightarrow> nat" where
  "ilog2 n = (if n < 2 then 0 else Suc (ilog2 (n div 2)))"

declare ilog2.simps [simp del]

definition format_power_of_two :: "int \<Rightarrow> string" where
  "format_power_of_two n =
     (if n > 0 \<and> (n AND (n - 1)) = 0
      then (let exp = int (ilog2 (nat n)) in ''$2^{'' @ str_int exp @ ''}$'')
      else str_int n)"

definition midrule :: string where
  "midrule = CHR 0x5C # ''midrule''"

definition table_header :: "string list" where
  "table_header =
     [CHR 0x5C # ''begin{table}[htbp]'',
      CHR 0x5C # ''centering'',
      CHR 0x5C # ''caption{Iterated f benchmark results}'',
      CHR 0x5C # ''label{tab:iterated-f-benchmark}'',
      CHR 0x5C # ''begin{tabular}{rrrrrr}'',
      CHR 0x5C # ''toprule'',
      ''Lanes & Iterations & Total Ops & Witness Gen & Proof Gen & Verification ''
        @ [CHR 0x5C, CHR 0x5C],
      midrule]"

definition table_footer :: "string list" where
  "table_footer =
     [CHR 0x5C # ''bottomrule'', CHR 0x5C # ''end{tabular}'', CHR 0x5C # ''end{table}'']"

text \<open>The line appended for one result.\<close>

definition table_row :: "'f platform \<Rightarrow> 'f BenchResult \<Rightarrow> string" where
  "table_row plat result =
     (let lanes' = lanes (config result);
          iters = iterations (config result);
          total_ops = lanes' * iters
      in str_int lanes' @ '' & '' @ format_power_of_two iters @ '' & ''
           @ format_power_of_two total_ops @ '' & ''
           @ format_time plat (witness_time_ms result) @ '' & ''
           @ format_time plat (proof_time_ms result) @ '' & ''
           @ format_time plat (verify_time_ms result) @ [CHR '' '', CHR 0x5C, CHR 0x5C])"

text \<open>The \<^verbatim>\<open>for result in results\<close> loop: the lines it appends, with \<^verbatim>\<open>current_lanes\<close>
  as state (\<open>None\<close> before the first result).\<close>

fun table_loop :: "'f platform \<Rightarrow> int option \<Rightarrow> 'f BenchResult list \<Rightarrow> string list" where
  "table_loop plat current_lanes [] = []"
| "table_loop plat current_lanes (result # results) =
     (let lanes' = lanes (config result) in
        (if current_lanes \<noteq> None \<and> Some lanes' \<noteq> current_lanes then [midrule] else [])
        @ [table_row plat result]
        @ table_loop plat (Some lanes') results)"

definition generate_latex_table :: "'f platform \<Rightarrow> 'f BenchResult list \<Rightarrow> string" where
  "generate_latex_table plat results =
     join_lines (table_header @ table_loop plat None results @ table_footer)"

section \<open>The main program\<close>

record args =
  output_arg :: "path option"
  skip_run :: bool

text \<open>The first loop of \<^verbatim>\<open>main\<close>: \<open>Inr False\<close> is the early \<^verbatim>\<open>return 1\<close>.\<close>

fun run_all ::
  "'f platform \<Rightarrow> path \<Rightarrow> BenchConfig list \<Rightarrow> 'f world \<Rightarrow> (exn + bool) \<times> 'f world" where
  "run_all plat workspace [] w = (Inr True, w)"
| "run_all plat workspace (cfg # rest) w =
     (case run_benchmark plat workspace cfg w of
        (Inl e, w') \<Rightarrow> (Inl e, w')
      | (Inr ok, w') \<Rightarrow>
          if \<not> ok
          then (Inr False, print_err (''Failed to run benchmark for '' @ config_repr cfg) w')
          else run_all plat workspace rest w')"

text \<open>The second loop of \<^verbatim>\<open>main\<close>, with the list \<^verbatim>\<open>results\<close> as accumulator.\<close>

fun collect_all ::
  "'f platform \<Rightarrow> path \<Rightarrow> BenchConfig list \<Rightarrow> 'f BenchResult list \<Rightarrow> 'f world
     \<Rightarrow> (exn + 'f BenchResult list) \<times> 'f world" where
  "collect_all plat workspace [] results w = (Inr results, w)"
| "collect_all plat workspace (cfg # rest) results w =
     (case collect_results plat workspace cfg w of
        (Inl e, w') \<Rightarrow> (Inl e, w')
      | (Inr (Some result), w') \<Rightarrow>
          collect_all plat workspace rest (results @ [result])
            (print_out (''  '' @ str_int (lanes cfg) @ '' lanes, '' @ str_int (iterations cfg)
               @ '' iters: witness='' @ format_time plat (witness_time_ms result)
               @ '', proof='' @ format_time plat (proof_time_ms result)
               @ '', verify='' @ format_time plat (verify_time_ms result)) w')
      | (Inr None, w') \<Rightarrow>
          collect_all plat workspace rest results
            (print_out (''  '' @ str_int (lanes cfg) @ '' lanes, '' @ str_int (iterations cfg)
               @ '' iters: NO DATA'') w'))"

definition collecting_banner :: string where
  "collecting_banner = CHR 0x0A # ''Collecting results...''"

text \<open>\<^verbatim>\<open>main\<close>, for parsed arguments and the workspace root that \<^verbatim>\<open>get_workspace_root\<close>
  returns. Its value is the returned exit code, or the exception that leaves it.\<close>

definition main ::
  "'f platform \<Rightarrow> path \<Rightarrow> args \<Rightarrow> 'f world \<Rightarrow> (exn + int) \<times> 'f world" where
  "main plat workspace a w =
     (case (if \<not> skip_run a
            then run_all plat workspace BENCH_CONFIGS (print_out ''Running benchmarks...'' w)
            else (Inr True, w)) of
        (Inl e, w1) \<Rightarrow> (Inl e, w1)
      | (Inr False, w1) \<Rightarrow> (Inr 1, w1)
      | (Inr True, w1) \<Rightarrow>
          (case collect_all plat workspace BENCH_CONFIGS [] (print_out collecting_banner w1) of
             (Inl e, w2) \<Rightarrow> (Inl e, w2)
           | (Inr results, w2) \<Rightarrow>
               if results = [] then (Inr 1, print_err ''No benchmark results found!'' w2)
               else
                 (let latex = generate_latex_table plat results in
                  case output_arg a of
                    Some out_path \<Rightarrow>
                      (case write_text plat out_path latex (fs w2) of
                         Inl e \<Rightarrow> (Inl e, w2)
                       | Inr tree' \<Rightarrow>
                           (Inr 0, print_out (CHR 0x0A # ''LaTeX table written to '' @ path_str out_path)
                                     (w2\<lparr>fs := tree'\<rparr>)))
                  | None \<Rightarrow>
                      (Inr 0, print_out latex (print_out (replicate 60 CHR ''='')
                                (print_out ''LaTeX Table:''
                                  (print_out (CHR 0x0A # replicate 60 CHR ''='') w2)))))))"

text \<open>\<^verbatim>\<open>sys.exit(main())\<close>: the exit status of the process. An exception that leaves
  \<^verbatim>\<open>main\<close> ends the interpreter with a traceback and status 1.\<close>

definition exit_status :: "exn + int \<Rightarrow> int" where
  "exit_status r = (case r of Inl e \<Rightarrow> 1 | Inr code \<Rightarrow> code)"

section \<open>Notions used to state the properties\<close>

text \<open>What \<^verbatim>\<open>find_benchmark_dir\<close> followed by \<^verbatim>\<open>read_benchmark_time\<close> yields for one phase
  in the state \<open>w\<close>: an exception, \<^verbatim>\<open>None\<close>, or the time.\<close>

definition phase_time ::
  "'f platform \<Rightarrow> path \<Rightarrow> BenchConfig \<Rightarrow> 'f world \<Rightarrow> string \<Rightarrow> exn + 'f option" where
  "phase_time plat workspace cfg w phase =
     (case find_benchmark_dir (fs w) workspace phase cfg of
        Inl e \<Rightarrow> Inl e
      | Inr None \<Rightarrow> Inr None
      | Inr (Some bench_dir) \<Rightarrow> fst (read_benchmark_time plat bench_dir w))"

text \<open>The state at the start of the program: nothing printed, no child started.\<close>

definition start_world :: "'f node \<Rightarrow> (string \<rightharpoonup> string) \<Rightarrow> 'f world" where
  "start_world tree os_environ =
     \<lparr>fs = tree, environ = os_environ, stdout = [], stderr = [], spawned = []\<rparr>"

text \<open>
  A platform to run the definitions on concrete inputs: floats are read as the real
  numbers they denote and computed with exactly, \<^verbatim>\<open>x / d\<close> raises \<^verbatim>\<open>TypeError\<close> unless \<open>x\<close>
  is a number, a float is printed with \<open>k\<close> decimals after rounding half up, the child
  process returns 0 and changes nothing, and the output file is written without error.
\<close>

fun pad_left :: "nat \<Rightarrow> string \<Rightarrow> string" where
  "pad_left k s = replicate (k - length s) CHR ''0'' @ s"

definition fixed_decimals :: "nat \<Rightarrow> real \<Rightarrow> string" where
  "fixed_decimals k x =
     (let scaled = \<lfloor>x * 10 ^ k + 1 / 2\<rfloor>
      in str_int (scaled div 10 ^ k) @ ''.'' @ pad_left k (str_int (scaled mod 10 ^ k)))"

fun exact_truediv :: "real py \<Rightarrow> int \<Rightarrow> exn + real" where
  "exact_truediv (PyInt i) d = Inr (real_of_int i / real_of_int d)"
| "exact_truediv (PyFloat x) d = Inr (x / real_of_int d)"
| "exact_truediv (PyBool b) d = Inr ((if b then 1 else 0) / real_of_int d)"
| "exact_truediv _ d = Inl TypeError"

definition exact_platform :: "real platform" where
  "exact_platform =
     \<lparr>truediv = exact_truediv,
      flt_lt = (\<lambda>x k. x < real_of_int k),
      flt_mul = (\<lambda>x k. x * real_of_int k),
      flt_div = (\<lambda>x k. x / real_of_int k),
      flt_fixed = fixed_decimals,
      subprocess_run = (\<lambda>args dir e tree. Inr (0, [], tree)),
      write_text = (\<lambda>p s tree. Inr tree)\<rparr>"

text \<open>Builders for the file systems of the examples: a statistics record with a point
  estimate, a benchmark directory holding a statistics file, and a workspace holding the
  result roots of some phases.\<close>

definition mean_estimate :: "'f py \<Rightarrow> 'f py" where
  "mean_estimate v = PyDict [(''mean'', PyDict [(''point_estimate'', v)])]"

definition bench_dir_with :: "'f content \<Rightarrow> 'f node" where
  "bench_dir_with c = Dir [(''new'', Dir [(''estimates.json'', File c)])]"

definition criterion_tree :: "(string \<times> 'f node) list \<Rightarrow> 'f node" where
  "criterion_tree phase_dirs = Dir [(''target'', Dir [(''criterion'', Dir phase_dirs)])]"

text \<open>The record of a child started for \<open>cfg\<close> from the parent environment \<open>e\<close> that
  returned \<open>rc\<close>, and the line \<^verbatim>\<open>run_benchmark\<close> prints before it starts the child.\<close>

definition inv_of :: "path \<Rightarrow> (string \<rightharpoonup> string) \<Rightarrow> int \<Rightarrow> BenchConfig \<Rightarrow> invocation" where
  "inv_of workspace e rc cfg =
     \<lparr>argv = cargo_argv, cwd = workspace, env = bench_env e cfg, returncode = Some rc\<rparr>"

definition running_line :: "BenchConfig \<Rightarrow> string" where
  "running_line cfg = ''Running benchmark: lanes='' @ str_int (lanes cfg)
                 @ '', iterations='' @ str_int (iterations cfg)"

text \<open>The result collected for a configuration in the state \<open>w\<close>, if there is one.\<close>

definition collected :: "'f platform \<Rightarrow> path \<Rightarrow> 'f world \<Rightarrow> BenchConfig \<Rightarrow> 'f BenchResult option" where
  "collected plat workspace w cfg =
     (case fst (collect_results plat workspace cfg w) of Inr (Some r) \<Rightarrow> Some r | _ \<Rightarrow> None)"

text \<open>A workspace with complete statistics for the configuration (1 lane, 8192 iterations)
  and, for (1 lane, 16384 iterations), one witness-generation statistics file with the
  given content.\<close>

definition sample_tree :: "real content \<Rightarrow> real node" where
  "sample_tree second =
     criterion_tree
       [(''iterated_f_witness_generation'',
           Dir [(''iterations_8192_run'', bench_dir_with (Json (mean_estimate (PyFloat 1500000)))),
                (''iterations_16384_run'', bench_dir_with second)]),
        (''iterated_f_proof_generation'',
           Dir [(''iterations_8192_run'', bench_dir_with (Json (mean_estimate (PyFloat 2300000))))]),
        (''iterated_f_proof_verification'',
           Dir [(''iterations_8192_run'', bench_dir_with (Json (mean_estimate (PyFloat 500000))))])]"

section \<open>Evaluation and auxiliary lemmas\<close>

lemma str_nat_numeral:
  "str_nat (numeral k) =
     (if numeral k < (10::nat) then [digit (numeral k)]
      else str_nat (numeral k div 10) @ [digit (numeral k mod 10)])"
  by (rule str_nat.simps)

lemma str_nat_0: "str_nat 0 = ''0''"
  by (simp add: str_nat.simps [of 0] digit_def)

lemma str_nat_1: "str_nat (Suc 0) = ''1''"
  by (simp add: str_nat.simps [of "Suc 0"] digit_def)

lemmas str_eval = str_int_def str_nat_numeral str_nat_0 str_nat_1 digit_def

lemmas fs_eval = find_benchmark_dir_def exists_def iterdir_def is_dir_def name_def
  startswith_def dir_prefix_def Let_def

lemma lookup_append:
  "lookup tree (p @ q) = (case lookup tree p of None \<Rightarrow> None | Some m \<Rightarrow> lookup m q)"
proof (induction p arbitrary: tree)
  case Nil
  show ?case by simp
next
  case (Cons c cs)
  show ?case
    by (cases tree) (simp_all add: Cons.IH split: option.splits)
qed

lemma lookup_child:
  "lookup tree p = Some (Dir es) \<Longrightarrow> lookup tree (p @ [c]) = map_of es c"
  by (simp add: lookup_append split: option.splits)

lemma find_map_list: "find P (map f xs) = map_option f (find (\<lambda>x. P (f x)) xs)"
  by (induction xs) simp_all

text \<open>In a directory whose children have distinct names, the scan of \<^verbatim>\<open>iterdir\<close> with
  \<^verbatim>\<open>is_dir\<close> and \<^verbatim>\<open>startswith\<close> is a scan of the children themselves.\<close>

lemma scan_children:
  assumes "lookup tree p = Some (Dir es)" and "distinct (map fst es)"
  shows "find (\<lambda>entry. is_dir tree entry \<and> startswith (name entry) pre) (map (\<lambda>e. p @ [fst e]) es)
         = map_option (\<lambda>e. p @ [fst e]) (find (\<lambda>e. is_directory (snd e) \<and> startswith (fst e) pre) es)"
proof -
  have "\<And>e. e \<in> set es \<Longrightarrow> is_dir tree (p @ [fst e]) = is_directory (snd e)"
  proof -
    fix e assume "e \<in> set es"
    with assms(2) have "map_of es (fst e) = Some (snd e)"
      by (cases e) simp
    with assms(1) show "is_dir tree (p @ [fst e]) = is_directory (snd e)"
      by (simp add: is_dir_def lookup_child)
  qed
  then have "find (\<lambda>e. is_dir tree (p @ [fst e]) \<and> startswith (name (p @ [fst e])) pre) es
        = find (\<lambda>e. is_directory (snd e) \<and> startswith (fst e) pre) es"
    by (intro find_cong) (simp_all add: name_def)
  then show ?thesis
    by (simp add: find_map_list)
qed

text \<open>A regular file where the result root of a phase should be: \<^verbatim>\<open>exists\<close> holds and
  \<^verbatim>\<open>iterdir\<close> raises.\<close>

lemma find_benchmark_dir_not_a_directory:
  "lookup tree (workspace @ [''target'', ''criterion'', ''iterated_f_'' @ phase]) = Some (File c)
   \<Longrightarrow> find_benchmark_dir tree workspace phase cfg = Inl NotADirectoryError"
  by (simp add: find_benchmark_dir_def exists_def iterdir_def)

lemmas read_eval = read_benchmark_time_def load_estimate_def exists_def Let_def print_err_def
  start_world_def

lemmas ex_eval = mean_estimate_def bench_dir_with_def criterion_tree_def start_world_def

lemmas phase_eval = phase_time_def fs_eval read_eval ex_eval str_eval exact_platform_def

text \<open>A successful read prints nothing, so the three phases of a configuration are all
  queried in the state in which \<^verbatim>\<open>collect_results\<close> starts.\<close>

lemma read_benchmark_time_Some_state:
  "read_benchmark_time plat d w = (Inr (Some t), w') \<Longrightarrow> w' = w"
  by (auto simp: read_benchmark_time_def Let_def split: if_splits sum.splits)

lemma collect_times_Cons_fst:
  "fst (collect_times plat workspace cfg (p # rest) ts w) =
     (case phase_time plat workspace cfg w p of
        Inl e \<Rightarrow> Inl e
      | Inr None \<Rightarrow> Inr None
      | Inr (Some t) \<Rightarrow> fst (collect_times plat workspace cfg rest (ts @ [t]) w))"
  by (auto simp: phase_time_def split: sum.splits option.splits prod.splits
           dest: read_benchmark_time_Some_state)

lemma collect_results_fst:
  "fst (collect_results plat workspace cfg w) =
     (case phase_time plat workspace cfg w ''witness_generation'' of
        Inl e \<Rightarrow> Inl e
      | Inr None \<Rightarrow> Inr None
      | Inr (Some t1) \<Rightarrow>
          (case phase_time plat workspace cfg w ''proof_generation'' of
             Inl e \<Rightarrow> Inl e
           | Inr None \<Rightarrow> Inr None
           | Inr (Some t2) \<Rightarrow>
               (case phase_time plat workspace cfg w ''proof_verification'' of
                  Inl e \<Rightarrow> Inl e
                | Inr None \<Rightarrow> Inr None
                | Inr (Some t3) \<Rightarrow>
                    Inr (Some \<lparr>config = cfg, witness_time_ms = t1,
                                proof_time_ms = t2, verify_time_ms = t3\<rparr>))))"
proof -
  have A: "fst (collect_results plat workspace cfg w) =
      (case fst (collect_times plat workspace cfg phases [] w) of
         Inl e \<Rightarrow> Inl e
       | Inr None \<Rightarrow> Inr None
       | Inr (Some ts) \<Rightarrow> Inr (Some \<lparr>config = cfg, witness_time_ms = ts ! 0,
                                proof_time_ms = ts ! 1, verify_time_ms = ts ! 2\<rparr>))"
    by (simp add: collect_results_def split: prod.splits sum.splits option.splits)
  have B: "fst (collect_times plat workspace cfg phases [] w) =
     (case phase_time plat workspace cfg w ''witness_generation'' of
        Inl e \<Rightarrow> Inl e
      | Inr None \<Rightarrow> Inr None
      | Inr (Some t1) \<Rightarrow>
          (case phase_time plat workspace cfg w ''proof_generation'' of
             Inl e \<Rightarrow> Inl e
           | Inr None \<Rightarrow> Inr None
           | Inr (Some t2) \<Rightarrow>
               (case phase_time plat workspace cfg w ''proof_verification'' of
                  Inl e \<Rightarrow> Inl e
                | Inr None \<Rightarrow> Inr None
                | Inr (Some t3) \<Rightarrow> Inr (Some [t1, t2, t3]))))"
    by (simp only: phases_def collect_times_Cons_fst collect_times.simps(1) fst_conv append.simps)
  show ?thesis
    unfolding A B by (simp split: sum.splits option.splits)
qed

text \<open>A positive integer has a single set bit exactly when it is a power of two.\<close>

lemma pow2_nat:
  fixes m :: nat
  assumes "0 < m"
  shows "(m AND (m - 1) = 0) = (\<exists>k. m = 2 ^ k)"
  using assms
proof (induction m rule: less_induct)
  case (less m)
  show ?case
  proof (cases "m = 1")
    case True
    then show ?thesis by (auto intro: exI [of _ 0])
  next
    case False
    with less.prems have m2: "2 \<le> m" by simp
    define q where "q = m div 2"
    have q: "0 < q" "q < m" using m2 by (auto simp: q_def)
    have rec: "m AND (m - 1) = of_bool (odd m \<and> odd (m - 1)) + 2 * (q AND ((m - 1) div 2))"
      unfolding q_def by (rule and_rec)
    show ?thesis
    proof (cases "even m")
      case True
      then have m: "m = 2 * q" by (auto simp: q_def)
      have d: "(m - 1) div 2 = q - 1" using m q by presburger
      have "m AND (m - 1) = 2 * (q AND (q - 1))"
        using rec True unfolding d by simp
      then have "(m AND (m - 1) = 0) = (q AND (q - 1) = 0)" by simp
      also have "\<dots> = (\<exists>k. q = 2 ^ k)" using less.IH [OF q(2) q(1)] .
      also have "\<dots> = (\<exists>k. m = 2 ^ k)"
      proof
        assume "\<exists>k. q = 2 ^ k"
        then obtain k where "q = 2 ^ k" ..
        then have "m = 2 ^ Suc k" using m by simp
        then show "\<exists>k. m = 2 ^ k" ..
      next
        assume "\<exists>k. m = 2 ^ k"
        then obtain k where k: "m = 2 ^ k" ..
        with m2 have "k \<noteq> 0" by (cases k) auto
        then obtain j where "k = Suc j" by (cases k) auto
        with k m have "q = 2 ^ j" by simp
        then show "\<exists>k. q = 2 ^ k" ..
      qed
      finally show ?thesis .
    next
      case False
      then have d: "(m - 1) div 2 = q" unfolding q_def by presburger
      have "m AND (m - 1) = 2 * q" using rec False unfolding d by simp
      then have nz: "m AND (m - 1) \<noteq> 0" using q by simp
      have "\<not> (\<exists>k. m = 2 ^ k)"
      proof
        assume "\<exists>k. m = 2 ^ k"
        then obtain k where k: "m = 2 ^ k" ..
        with False have "k = 0" by (cases k) auto
        with k m2 show False by simp
      qed
      with nz show ?thesis by simp
    qed
  qed
qed

lemma pow2_int:
  fixes n :: int
  assumes "0 < n"
  shows "(n AND (n - 1) = 0) = (\<exists>k. n = 2 ^ k)"
proof -
  define m where "m = nat n"
  have n: "n = int m" and m: "0 < m" using assms by (simp_all add: m_def)
  have n1: "n - 1 = int (m - 1)" using n m by simp
  have "n AND (n - 1) = int (m AND (m - 1))"
    unfolding n1 unfolding n by (rule of_nat_and_eq [symmetric])
  then have "(n AND (n - 1) = 0) = (m AND (m - 1) = 0)" by simp
  also have "\<dots> = (\<exists>k. m = 2 ^ k)" by (rule pow2_nat [OF m])
  also have "\<dots> = (\<exists>k. n = 2 ^ k)"
  proof -
    have "(m = 2 ^ k) = (n = 2 ^ k)" for k
    proof -
      have "(int m = int (2 ^ k)) = (m = 2 ^ k)" by (rule of_nat_eq_iff)
      then show ?thesis unfolding n by simp
    qed
    then show ?thesis by simp
  qed
  finally show ?thesis .
qed

lemma ilog2_power: "ilog2 (2 ^ k) = k"
proof (induction k)
  case 0
  show ?case by (simp add: ilog2.simps [of "Suc 0"])
next
  case (Suc k)
  have "ilog2 (2 ^ Suc k) = Suc (ilog2 (2 ^ Suc k div 2))"
    by (subst ilog2.simps) simp
  then show ?case using Suc by simp
qed

lemma table_row_not_midrule: "table_row plat r \<noteq> midrule"
proof -
  have "CHR ''&'' \<in> set (table_row plat r)"
    by (simp add: table_row_def Let_def)
  moreover have "CHR ''&'' \<notin> set midrule"
    by (simp add: midrule_def)
  ultimately show ?thesis by metis
qed

lemma table_loop_Some:
  "table_loop plat (Some (lanes (config p))) rs =
     concat (map (\<lambda>(prev, cur).
                    (if lanes (config cur) \<noteq> lanes (config prev) then [midrule] else [])
                    @ [table_row plat cur])
               (zip (p # rs) rs))"
  by (induction rs arbitrary: p) (simp_all add: Let_def)

lemma count_midrule_concat:
  "length (filter (\<lambda>l. l = midrule)
     (concat (map (\<lambda>(prev, cur).
                    (if lanes (config cur) \<noteq> lanes (config prev) then [midrule] else [])
                    @ [table_row plat cur]) ps)))
   = length (filter (\<lambda>(prev, cur). lanes (config cur) \<noteq> lanes (config prev)) ps)"
  by (induction ps) (auto simp: table_row_not_midrule)


lemma bench_env_other:
  "k \<noteq> ''ITERATIONS'' \<Longrightarrow> k \<noteq> ''LANES'' \<Longrightarrow> k \<noteq> ''RUSTFLAGS'' \<Longrightarrow> bench_env e cfg k = e k"
  by (simp add: bench_env_def Let_def)

lemmas main_eval = main_def BENCH_CONFIGS_def collect_results_def phases_def
  fs_eval read_eval ex_eval str_eval exact_platform_def print_out_def sample_tree_def

text \<open>The first loop of \<^verbatim>\<open>main\<close>: which children it starts and what it prints.\<close>

lemma run_benchmark_returns:
  assumes "run_benchmark plat workspace cfg w = (Inr ok, w')"
  shows "\<exists>rc. (ok \<longleftrightarrow> rc = 0)
            \<and> spawned w' = spawned w @ [inv_of workspace (environ w) rc cfg]
            \<and> stdout w' = stdout w @ [running_line cfg]
            \<and> environ w' = environ w"
  using assms
  by (auto simp: run_benchmark_def Let_def print_out_def print_err_def inv_of_def running_line_def
           split: sum.splits prod.splits if_splits)

lemma run_all_aborts:
  "run_all plat workspace cfgs w = (Inr False, w')
   \<Longrightarrow> \<exists>pre c post rc. cfgs = pre @ c # post \<and> rc \<noteq> 0
         \<and> spawned w' = spawned w @ map (inv_of workspace (environ w) 0) pre
                           @ [inv_of workspace (environ w) rc c]
         \<and> stdout w' = stdout w @ map running_line (pre @ [c])"
proof (induction cfgs arbitrary: w)
  case Nil
  then show ?case by simp
next
  case (Cons cfg rest)
  from Cons.prems obtain ok w1 where rb: "run_benchmark plat workspace cfg w = (Inr ok, w1)"
    by (auto split: prod.splits sum.splits)
  from run_benchmark_returns [OF rb] obtain rc where
    rc: "ok \<longleftrightarrow> rc = 0" and
    sp: "spawned w1 = spawned w @ [inv_of workspace (environ w) rc cfg]" and
    so: "stdout w1 = stdout w @ [running_line cfg]" and
    en: "environ w1 = environ w"
    by blast
  show ?case
  proof (cases ok)
    case False
    with Cons.prems rb have w': "w' = print_err (''Failed to run benchmark for '' @ config_repr cfg) w1"
      by simp
    have "cfg # rest = [] @ cfg # rest \<and> rc \<noteq> 0
         \<and> spawned w' = spawned w @ map (inv_of workspace (environ w) 0) []
                           @ [inv_of workspace (environ w) rc cfg]
         \<and> stdout w' = stdout w @ map running_line ([] @ [cfg])"
      using False rc sp so by (simp add: w' print_err_def)
    then show ?thesis by blast
  next
    case True
    with Cons.prems rb have "run_all plat workspace rest w1 = (Inr False, w')"
      by simp
    from Cons.IH [OF this] obtain pre c post rc' where
      r: "rest = pre @ c # post" "rc' \<noteq> 0"
         "spawned w' = spawned w1 @ map (inv_of workspace (environ w1) 0) pre
                           @ [inv_of workspace (environ w1) rc' c]"
         "stdout w' = stdout w1 @ map running_line (pre @ [c])"
      by blast
    from True rc have rc0: "rc = 0" by simp
    have "cfg # rest = (cfg # pre) @ c # post \<and> rc' \<noteq> 0
         \<and> spawned w' = spawned w @ map (inv_of workspace (environ w) 0) (cfg # pre)
                           @ [inv_of workspace (environ w) rc' c]
         \<and> stdout w' = stdout w @ map running_line ((cfg # pre) @ [c])"
      using r sp so en rc0 by simp
    then show ?thesis by blast
  qed
qed

lemma run_all_completes:
  "run_all plat workspace cfgs w = (Inr True, w')
   \<Longrightarrow> spawned w' = spawned w @ map (inv_of workspace (environ w) 0) cfgs
       \<and> stdout w' = stdout w @ map running_line cfgs"
proof (induction cfgs arbitrary: w)
  case Nil
  then show ?case by simp
next
  case (Cons cfg rest)
  from Cons.prems obtain ok w1 where rb: "run_benchmark plat workspace cfg w = (Inr ok, w1)"
    by (auto split: prod.splits sum.splits)
  from run_benchmark_returns [OF rb] obtain rc where
    rc: "ok \<longleftrightarrow> rc = 0" and
    sp: "spawned w1 = spawned w @ [inv_of workspace (environ w) rc cfg]" and
    so: "stdout w1 = stdout w @ [running_line cfg]" and
    en: "environ w1 = environ w"
    by blast
  from Cons.prems rb have ok: ok and rest: "run_all plat workspace rest w1 = (Inr True, w')"
    by (auto split: if_splits)
  from Cons.IH [OF rest] sp so en rc ok show ?case by simp
qed

text \<open>Collecting reads the file system and never changes it, so every configuration is
  collected from the file system the second loop starts with.\<close>

lemma read_benchmark_time_fs: "fs (snd (read_benchmark_time plat d w)) = fs w"
  by (simp add: read_benchmark_time_def Let_def print_err_def split: sum.splits)

lemma read_benchmark_time_fst_cong:
  "fs w = fs w' \<Longrightarrow> fst (read_benchmark_time plat d w) = fst (read_benchmark_time plat d w')"
  by (simp add: read_benchmark_time_def Let_def split: sum.splits)

lemma phase_time_cong:
  "fs w = fs w' \<Longrightarrow> phase_time plat workspace cfg w p = phase_time plat workspace cfg w' p"
  by (simp add: phase_time_def read_benchmark_time_fst_cong [of w w'] split: sum.splits option.splits)

lemma collect_results_fst_cong:
  "fs w = fs w' \<Longrightarrow> fst (collect_results plat workspace cfg w) = fst (collect_results plat workspace cfg w')"
proof -
  assume a: "fs w = fs w'"
  have e: "phase_time plat workspace cfg w = phase_time plat workspace cfg w'"
    by (rule ext) (rule phase_time_cong [OF a])
  show ?thesis
    unfolding collect_results_fst e ..
qed

lemma collect_times_fs: "fs (snd (collect_times plat workspace cfg ps ts w)) = fs w"
proof (induction ps arbitrary: ts w)
  case Nil
  show ?case by simp
next
  case (Cons p ps)
  show ?case
  proof (cases "find_benchmark_dir (fs w) workspace p cfg")
    case (Inl e)
    then show ?thesis by simp
  next
    case (Inr found)
    show ?thesis
    proof (cases found)
      case None
      with Inr show ?thesis by (simp add: print_out_def)
    next
      case (Some d)
      obtain r w1 where rd: "read_benchmark_time plat d w = (r, w1)" by (cases "read_benchmark_time plat d w")
      then have f1: "fs w1 = fs w" using read_benchmark_time_fs [of plat d w] by simp
      show ?thesis
        using Inr Some rd f1 Cons.IH by (simp split: sum.splits option.splits)
    qed
  qed
qed

lemma collect_results_fs: "fs (snd (collect_results plat workspace cfg w)) = fs w"
proof -
  obtain r w1 where c: "collect_times plat workspace cfg phases [] w = (r, w1)"
    by (cases "collect_times plat workspace cfg phases [] w")
  then have "fs w1 = fs w" using collect_times_fs [of plat workspace cfg phases "[]" w] by simp
  with c show ?thesis by (simp add: collect_results_def split: sum.splits option.splits)
qed

lemma collect_all_results:
  assumes "fs w = fs w0"
    and "\<forall>cfg\<in>set cfgs. \<exists>x. fst (collect_results plat workspace cfg w0) = Inr x"
  shows "fst (collect_all plat workspace cfgs acc w)
           = Inr (acc @ List.map_filter (collected plat workspace w0) cfgs)"
  using assms
proof (induction cfgs arbitrary: acc w)
  case Nil
  show ?case by (simp add: List.map_filter_simps)
next
  case (Cons cfg rest)
  obtain r w1 where c: "collect_results plat workspace cfg w = (r, w1)"
    by (cases "collect_results plat workspace cfg w")
  have f1: "fs w1 = fs w0"
    using collect_results_fs [of plat workspace cfg w] c Cons.prems(1) by simp
  have r0: "r = fst (collect_results plat workspace cfg w0)"
    using collect_results_fst_cong [OF Cons.prems(1), of plat workspace cfg] c by simp
  from Cons.prems(2) obtain x where x: "fst (collect_results plat workspace cfg w0) = Inr x"
    by auto
  have rest: "\<forall>cfg\<in>set rest. \<exists>x. fst (collect_results plat workspace cfg w0) = Inr x"
    using Cons.prems(2) by simp
  show ?case
  proof (cases x)
    case None
    have "fs (print_out (''  '' @ str_int (lanes cfg) @ '' lanes, '' @ str_int (iterations cfg)
               @ '' iters: NO DATA'') w1) = fs w0"
      using f1 by (simp add: print_out_def)
    from Cons.IH [OF this rest] show ?thesis
      using c r0 x None by (simp add: List.map_filter_simps collected_def)
  next
    case (Some res)
    have "fs (print_out (''  '' @ str_int (lanes cfg) @ '' lanes, '' @ str_int (iterations cfg)
               @ '' iters: witness='' @ format_time plat (witness_time_ms res)
               @ '', proof='' @ format_time plat (proof_time_ms res)
               @ '', verify='' @ format_time plat (verify_time_ms res)) w1) = fs w0"
      using f1 by (simp add: print_out_def)
    from Cons.IH [OF this rest] show ?thesis
      using c r0 x Some by (simp add: List.map_filter_simps collected_def)
  qed
qed

lemma collect_all_fs: "fs (snd (collect_all plat workspace cfgs acc w)) = fs w"
proof (induction cfgs arbitrary: acc w)
  case Nil
  show ?case by simp
next
  case (Cons cfg rest)
  obtain r w1 where c: "collect_results plat workspace cfg w = (r, w1)"
    by (cases "collect_results plat workspace cfg w")
  then have f1: "fs w1 = fs w" using collect_results_fs [of plat workspace cfg w] by simp
  show ?case
    using c f1 Cons.IH by (simp add: print_out_def split: sum.splits option.splits)
qed

lemma map_filter_empty: "List.map_filter f xs = [] \<longleftrightarrow> (\<forall>x\<in>set xs. f x = None)"
  by (simp add: List.map_filter_def filter_empty_conv)

lemma main_after_run:
  assumes run: "(if \<not> skip_run a
            then run_all plat workspace BENCH_CONFIGS (print_out ''Running benchmarks...'' w)
            else (Inr True, w)) = (Inr True, w1)"
    and noexn: "\<forall>cfg\<in>set BENCH_CONFIGS. \<exists>x. fst (collect_results plat workspace cfg w1) = Inr x"
    and wr: "\<forall>p s. output_arg a = Some p \<longrightarrow> (\<exists>t'. write_text plat p s (fs w1) = Inr t')"
  shows "fst (main plat workspace a w)
           = Inr (if \<exists>cfg\<in>set BENCH_CONFIGS. collected plat workspace w1 cfg \<noteq> None then 0 else 1)"
proof -
  let ?w1' = "print_out collecting_banner w1"
  obtain r2 w2 where c: "collect_all plat workspace BENCH_CONFIGS [] ?w1' = (r2, w2)"
    by (cases "collect_all plat workspace BENCH_CONFIGS [] ?w1'")
  have f: "fs ?w1' = fs w1" by (simp add: print_out_def)
  from collect_all_results [OF f noexn, of "[]"] c
  have r2: "r2 = Inr (List.map_filter (collected plat workspace w1) BENCH_CONFIGS)"
    by simp
  have f2: "fs w2 = fs w1"
    using collect_all_fs [of plat workspace BENCH_CONFIGS "[]" ?w1'] c f by simp
  let ?results = "List.map_filter (collected plat workspace w1) BENCH_CONFIGS"
  have m: "main plat workspace a w =
       (if ?results = [] then (Inr 1, print_err ''No benchmark results found!'' w2)
        else
          (let latex = generate_latex_table plat ?results in
           case output_arg a of
             Some out_path \<Rightarrow>
               (case write_text plat out_path latex (fs w2) of
                  Inl e \<Rightarrow> (Inl e, w2)
                | Inr tree' \<Rightarrow>
                    (Inr 0, print_out (CHR 0x0A # ''LaTeX table written to '' @ path_str out_path)
                              (w2\<lparr>fs := tree'\<rparr>)))
           | None \<Rightarrow>
               (Inr 0, print_out latex (print_out (replicate 60 CHR ''='')
                         (print_out ''LaTeX Table:''
                           (print_out (CHR 0x0A # replicate 60 CHR ''='') w2))))))"
    unfolding main_def run using c r2 by simp
  show ?thesis
  proof (cases "?results = []")
    case True
    then have "\<not> (\<exists>cfg\<in>set BENCH_CONFIGS. collected plat workspace w1 cfg \<noteq> None)"
      by (simp add: map_filter_empty)
    with True m show ?thesis by simp
  next
    case False
    then have ex: "\<exists>cfg\<in>set BENCH_CONFIGS. collected plat workspace w1 cfg \<noteq> None"
      by (simp add: map_filter_empty)
    show ?thesis
    proof (cases "output_arg a")
      case None
      with False m ex show ?thesis by (simp add: Let_def)
    next
      case (Some p)
      with wr obtain t' where "write_text plat p (generate_latex_table plat ?results) (fs w1) = Inr t'"
        by blast
      with Some False m ex f2 show ?thesis by (simp add: Let_def)
    qed
  qed
qed

lemma ilog2_numeral:
  "ilog2 (numeral k) = (if numeral k < (2::nat) then 0 else Suc (ilog2 (numeral k div 2)))"
  by (rule ilog2.simps)

lemma ilog2_1: "ilog2 (Suc 0) = 0"
  by (simp add: ilog2.simps [of "Suc 0"])


text \<open>The lines of the loop for three results on the platform with exact arithmetic: two
  rows with 1 lane, a separator, one row with 4 lanes.\<close>

lemma table_loop_example:
  "table_loop exact_platform None
     [\<lparr>config = \<lparr>lanes = 1, iterations = 8192\<rparr>, witness_time_ms = 3 / 2,
        proof_time_ms = 23 / 10, verify_time_ms = 1 / 2\<rparr>,
      \<lparr>config = \<lparr>lanes = 1, iterations = 16384\<rparr>, witness_time_ms = 3,
        proof_time_ms = 5, verify_time_ms = 1\<rparr>,
      \<lparr>config = \<lparr>lanes = 4, iterations = 2048\<rparr>, witness_time_ms = 2,
        proof_time_ms = 1200, verify_time_ms = 1\<rparr>]
   = [''1 & $2^{13}$ & $2^{13}$ & 1.5 ms & 2.3 ms & 500.0 '' @ [CHR 0xC2, CHR 0xB5] @ ''s '' @ [CHR 0x5C, CHR 0x5C],
      ''1 & $2^{14}$ & $2^{14}$ & 3.0 ms & 5.0 ms & 1.0 ms '' @ [CHR 0x5C, CHR 0x5C],
      midrule,
      ''4 & $2^{11}$ & $2^{13}$ & 2.0 ms & 1.20 s & 1.0 ms '' @ [CHR 0x5C, CHR 0x5C]]"
  by (simp add: table_row_def format_time_def exact_platform_def fixed_decimals_def
        format_power_of_two_def ilog2_numeral ilog2_1 str_eval Let_def)

text \<open>What \<^verbatim>\<open>read_benchmark_time\<close> does on a missing file, on a file that raises
  \<^verbatim>\<open>JSONDecodeError\<close>, and on a file that holds a mapping whose \<^verbatim>\<open>mean\<close>, if present, is a
  mapping: the cases its handler covers, and the division.\<close>

lemma read_benchmark_time_cases:
  "(lookup (fs w) (bench_dir @ [''new'', ''estimates.json'']) = None
      \<longrightarrow> read_benchmark_time plat bench_dir w = (Inr None, w))
   \<and> (lookup (fs w) (bench_dir @ [''new'', ''estimates.json'']) = Some (File (Garbled msg))
      \<longrightarrow> read_benchmark_time plat bench_dir w =
            (Inr None, print_err (''Error reading '' @ path_str (bench_dir @ [''new'', ''estimates.json''])
                                   @ '': '' @ msg) w))
   \<and> (lookup (fs w) (bench_dir @ [''new'', ''estimates.json'']) = Some (File (Json (PyDict kvs)))
        \<and> map_of kvs ''mean'' = None
      \<longrightarrow> read_benchmark_time plat bench_dir w =
            (Inr None, print_err (''Error reading '' @ path_str (bench_dir @ [''new'', ''estimates.json''])
                                   @ '': '' @ exn_str (KeyError ''mean'')) w))
   \<and> (lookup (fs w) (bench_dir @ [''new'', ''estimates.json'']) = Some (File (Json (PyDict kvs)))
        \<and> map_of kvs ''mean'' = Some (PyDict mean) \<and> map_of mean ''point_estimate'' = None
      \<longrightarrow> read_benchmark_time plat bench_dir w =
            (Inr None, print_err (''Error reading '' @ path_str (bench_dir @ [''new'', ''estimates.json''])
                                   @ '': '' @ exn_str (KeyError ''point_estimate'')) w))
   \<and> (lookup (fs w) (bench_dir @ [''new'', ''estimates.json'']) = Some (File (Json (PyDict kvs)))
        \<and> map_of kvs ''mean'' = Some (PyDict mean) \<and> map_of mean ''point_estimate'' = Some v
        \<and> truediv plat v 1000000 = Inr t
      \<longrightarrow> read_benchmark_time plat bench_dir w = (Inr (Some t), w))"
  by (simp add: read_benchmark_time_def load_estimate_def exists_def Let_def)

section \<open>Configuration enumeration\<close>

text \<open>
  C4. \<^verbatim>\<open>BENCH_CONFIGS\<close> is a list of 15 configurations: five with 1 lane, then five with
  4 lanes, then five with 16 lanes. The iteration counts are powers of two, with exponents
  13 to 17 for 1 lane, 11 to 15 for 4 lanes and 9 to 13 for 16 lanes: the range moves down
  by a factor of four from one tier to the next, and within a tier the counts double from
  one entry to the next. In each tier the products lanes * iterations are
  \<open>2^13, 2^14, 2^15, 2^16, 2^17\<close>, in this order.
\<close>

theorem bench_configs_sweep:
  "length BENCH_CONFIGS = 15
   \<and> map lanes BENCH_CONFIGS = replicate 5 1 @ replicate 5 4 @ replicate 5 16
   \<and> map iterations BENCH_CONFIGS =
       map (\<lambda>k. 2 ^ k) ([13, 14, 15, 16, 17] @ [11, 12, 13, 14, 15] @ [9, 10, 11, 12, 13])
   \<and> map (\<lambda>c. lanes c * iterations c) (take 5 BENCH_CONFIGS)
       = map (\<lambda>k. 2 ^ k) [13, 14, 15, 16, 17]
   \<and> map (\<lambda>c. lanes c * iterations c) (take 5 (drop 5 BENCH_CONFIGS))
       = map (\<lambda>k. 2 ^ k) [13, 14, 15, 16, 17]
   \<and> map (\<lambda>c. lanes c * iterations c) (drop 10 BENCH_CONFIGS)
       = map (\<lambda>k. 2 ^ k) [13, 14, 15, 16, 17]"
  by (simp add: BENCH_CONFIGS_def numeral_eq_Suc)

section \<open>Locating a result directory\<close>

text \<open>
  C2. \<^verbatim>\<open>find_benchmark_dir\<close> computes the prefix \<^verbatim>\<open>iterations_{iterations}_\<close> when
  \<open>lanes = 1\<close> and \<^verbatim>\<open>iterations_{iterations}_lanes_{lanes}_\<close> otherwise. When nothing exists
  at the result root of the phase it returns \<^verbatim>\<open>None\<close>. When the result root is a directory
  (whose children have distinct names), it returns the first child, in the order of
  enumeration, that is a directory and whose name starts with the prefix, and \<^verbatim>\<open>None\<close>
  when there is no such child.
\<close>

theorem find_benchmark_dir_scan:
  "dir_prefix cfg =
     (if lanes cfg = 1 then ''iterations_'' @ str_int (iterations cfg) @ ''_''
      else ''iterations_'' @ str_int (iterations cfg) @ ''_lanes_'' @ str_int (lanes cfg) @ ''_'')
   \<and> (lookup tree (workspace @ [''target'', ''criterion'', ''iterated_f_'' @ phase]) = None
        \<longrightarrow> find_benchmark_dir tree workspace phase cfg = Inr None)
   \<and> (lookup tree (workspace @ [''target'', ''criterion'', ''iterated_f_'' @ phase]) = Some (Dir es)
        \<and> distinct (map fst es)
        \<longrightarrow> find_benchmark_dir tree workspace phase cfg =
              Inr (map_option
                     (\<lambda>e. workspace @ [''target'', ''criterion'', ''iterated_f_'' @ phase, fst e])
                     (find (\<lambda>e. is_directory (snd e) \<and> startswith (fst e) (dir_prefix cfg)) es)))"
proof (intro conjI impI)
  show "dir_prefix cfg =
     (if lanes cfg = 1 then ''iterations_'' @ str_int (iterations cfg) @ ''_''
      else ''iterations_'' @ str_int (iterations cfg) @ ''_lanes_'' @ str_int (lanes cfg) @ ''_'')"
    by (simp add: dir_prefix_def)
next
  assume "lookup tree (workspace @ [''target'', ''criterion'', ''iterated_f_'' @ phase]) = None"
  then show "find_benchmark_dir tree workspace phase cfg = Inr None"
    by (simp add: find_benchmark_dir_def exists_def)
next
  let ?cd = "workspace @ [''target'', ''criterion'', ''iterated_f_'' @ phase]"
  assume a: "lookup tree ?cd = Some (Dir es) \<and> distinct (map fst es)"
  then have "find_benchmark_dir tree workspace phase cfg =
      Inr (find (\<lambda>entry. is_dir tree entry \<and> startswith (name entry) (dir_prefix cfg))
             (map (\<lambda>e. ?cd @ [fst e]) es))"
    by (simp add: find_benchmark_dir_def exists_def iterdir_def)
  also have "\<dots> = Inr (map_option (\<lambda>e. ?cd @ [fst e])
                     (find (\<lambda>e. is_directory (snd e) \<and> startswith (fst e) (dir_prefix cfg)) es))"
    using a by (simp only: scan_children)
  finally show "find_benchmark_dir tree workspace phase cfg =
              Inr (map_option
                     (\<lambda>e. workspace @ [''target'', ''criterion'', ''iterated_f_'' @ phase, fst e])
                     (find (\<lambda>e. is_directory (snd e) \<and> startswith (fst e) (dir_prefix cfg)) es))"
    by simp
qed

theorem find_benchmark_dir_scan_witness:
  "find_benchmark_dir
     (Dir [(''target'', Dir [(''criterion'', Dir [(''iterated_f_proof_generation'',
        Dir [(''iterations_2048_lanes_4_old'', File (Garbled [])),
             (''iterations_2048_lanes_4_run'', Dir []),
             (''iterations_2048_lanes_4_zzz'', Dir [])])])])])
     [] ''proof_generation'' \<lparr>lanes = 4, iterations = 2048\<rparr>
     = Inr (Some [''target'', ''criterion'', ''iterated_f_proof_generation'',
                  ''iterations_2048_lanes_4_run''])
   \<and> find_benchmark_dir (Dir []) [] ''proof_generation'' \<lparr>lanes = 4, iterations = 2048\<rparr>
     = Inr None"
proof -
  let ?es = "[(''iterations_2048_lanes_4_old'', File (Garbled [])),
             (''iterations_2048_lanes_4_run'', Dir []),
             (''iterations_2048_lanes_4_zzz'', Dir [])]"
  let ?tree = "Dir [(''target'', Dir [(''criterion'',
                 Dir [(''iterated_f_proof_generation'', Dir ?es)])])]"
  have h1: "lookup ?tree ([] @ [''target'', ''criterion'', ''iterated_f_'' @ ''proof_generation''])
              = Some (Dir ?es)
            \<and> distinct (map fst ?es)"
    by simp
  have h2: "lookup (Dir []) ([] @ [''target'', ''criterion'', ''iterated_f_'' @ ''proof_generation''])
              = None"
    by simp
  show ?thesis
    using find_benchmark_dir_scan [where tree = ?tree and workspace = "[]"
            and phase = "''proof_generation''" and es = ?es
            and cfg = "\<lparr>lanes = 4, iterations = 2048\<rparr>"] h1
          find_benchmark_dir_scan [where tree = "Dir []" and workspace = "[]"
            and phase = "''proof_generation''" and es = "[]"
            and cfg = "\<lparr>lanes = 4, iterations = 2048\<rparr>"] h2
    by (simp add: startswith_def dir_prefix_def str_eval)
qed

text \<open>
  C3. The prefix of a single-lane configuration is a prefix of every name that starts with
  the prefix of a configuration with the same iteration count and any number of lanes.
  The configurations (1 lane, 8192) and (4 lanes, 8192) are both in the sweep. With the
  4-lane directory enumerated first, the search for the single-lane configuration returns
  the 4-lane directory; with the same two children enumerated in the other order it
  returns the single-lane directory.
\<close>

theorem single_lane_prefix_matches_multi_lane:
  "(\<forall>n l rest. startswith (dir_prefix \<lparr>lanes = l, iterations = n\<rparr> @ rest)
                  (dir_prefix \<lparr>lanes = 1, iterations = n\<rparr>))
   \<and> \<lparr>lanes = 1, iterations = 8192\<rparr> \<in> set BENCH_CONFIGS
   \<and> \<lparr>lanes = 4, iterations = 8192\<rparr> \<in> set BENCH_CONFIGS
   \<and> find_benchmark_dir
       (Dir [(''target'', Dir [(''criterion'', Dir [(''iterated_f_witness_generation'',
          Dir [(''iterations_8192_lanes_4_bench'', Dir []),
               (''iterations_8192_bench'', Dir [])])])])])
       [] ''witness_generation'' \<lparr>lanes = 1, iterations = 8192\<rparr>
     = Inr (Some [''target'', ''criterion'', ''iterated_f_witness_generation'',
                  ''iterations_8192_lanes_4_bench''])
   \<and> find_benchmark_dir
       (Dir [(''target'', Dir [(''criterion'', Dir [(''iterated_f_witness_generation'',
          Dir [(''iterations_8192_bench'', Dir []),
               (''iterations_8192_lanes_4_bench'', Dir [])])])])])
       [] ''witness_generation'' \<lparr>lanes = 1, iterations = 8192\<rparr>
     = Inr (Some [''target'', ''criterion'', ''iterated_f_witness_generation'',
                  ''iterations_8192_bench''])"
proof (intro conjI allI)
  fix n l rest
  show "startswith (dir_prefix \<lparr>lanes = l, iterations = n\<rparr> @ rest)
          (dir_prefix \<lparr>lanes = 1, iterations = n\<rparr>)"
    by (simp add: startswith_def dir_prefix_def)
qed (simp_all add: BENCH_CONFIGS_def fs_eval str_eval)

section \<open>Reading a timing\<close>

text \<open>
  C7. The handler of \<^verbatim>\<open>read_benchmark_time\<close> catches \<^verbatim>\<open>JSONDecodeError\<close> and \<^verbatim>\<open>KeyError\<close>
  only. On a statistics file that holds the well-formed JSON \<^verbatim>\<open>{"mean": 5}\<close>, and on one
  whose top-level value is a list, the subscript raises \<^verbatim>\<open>TypeError\<close>, which the handler
  does not catch: the exception leaves \<^verbatim>\<open>read_benchmark_time\<close>, whatever the platform and
  the environment, and nothing is printed.
\<close>

theorem type_error_leaves_read_benchmark_time:
  "read_benchmark_time plat [''d'']
     (start_world (Dir [(''d'', Dir [(''new'', Dir [(''estimates.json'',
         File (Json (PyDict [(''mean'', PyInt 5)])))])])]) os_environ)
   = (Inl TypeError,
      start_world (Dir [(''d'', Dir [(''new'', Dir [(''estimates.json'',
         File (Json (PyDict [(''mean'', PyInt 5)])))])])]) os_environ)
   \<and> read_benchmark_time plat [''d'']
     (start_world (Dir [(''d'', Dir [(''new'', Dir [(''estimates.json'',
         File (Json (PyList [PyDict [(''mean'', PyDict [(''point_estimate'', PyInt 5)])]])))])])]) os_environ)
   = (Inl TypeError,
      start_world (Dir [(''d'', Dir [(''new'', Dir [(''estimates.json'',
         File (Json (PyList [PyDict [(''mean'', PyDict [(''point_estimate'', PyInt 5)])]])))])])]) os_environ)
   \<and> \<not> caught TypeError"
  by (simp add: read_eval)

text \<open>
  C6. \<^verbatim>\<open>read_benchmark_time\<close> is to return \<^verbatim>\<open>None\<close> when \<^verbatim>\<open>new/estimates.json\<close> is missing, when
  its content fails to parse as JSON and when the nested field \<^verbatim>\<open>mean.point_estimate\<close> is
  missing, and the point estimate divided by 1,000,000 otherwise. The code does so on the
  statistics files \<^verbatim>\<open>{}\<close> and \<^verbatim>\<open>{"mean": {}}\<close>, where the missing key raises the
  \<^verbatim>\<open>KeyError\<close> that the handler catches. On \<^verbatim>\<open>{"mean": null}\<close> the field is missing as
  well, but the subscript raises \<^verbatim>\<open>TypeError\<close>, and on a file whose bytes are not UTF-8
  the read raises \<^verbatim>\<open>UnicodeDecodeError\<close>: the handler catches neither, and the exception
  leaves \<^verbatim>\<open>read_benchmark_time\<close> where the claim says \<^verbatim>\<open>None\<close>.
\<close>

theorem read_benchmark_time_uncaught_errors:
  "fst (read_benchmark_time exact_platform [''d'']
          (start_world (Dir [(''d'', bench_dir_with (Json (PyDict [])))]) Map.empty))
     = Inr None
   \<and> fst (read_benchmark_time exact_platform [''d'']
          (start_world (Dir [(''d'', bench_dir_with (Json (PyDict [(''mean'', PyDict [])])))]) Map.empty))
     = Inr None
   \<and> fst (read_benchmark_time exact_platform [''d'']
          (start_world (Dir [(''d'', bench_dir_with (Json (PyDict [(''mean'', PyNone)])))]) Map.empty))
     = Inl TypeError
   \<and> fst (read_benchmark_time exact_platform [''d'']
          (start_world (Dir [(''d'', bench_dir_with (Unreadable UnicodeDecodeError))]) Map.empty))
     = Inl UnicodeDecodeError"
  by (simp add: read_eval ex_eval)

section \<open>Collecting a configuration\<close>

text \<open>
  C1. \<^verbatim>\<open>collect_results\<close> goes through the phases \<^verbatim>\<open>witness_generation\<close>,
  \<^verbatim>\<open>proof_generation\<close>, \<^verbatim>\<open>proof_verification\<close> in this order. It returns a \<^verbatim>\<open>BenchResult\<close>
  exactly when each of the three phases yields a directory and a time, and the result then
  holds the configuration and the three times as witness, proof and verify time. When a
  phase yields \<^verbatim>\<open>None\<close> and the phases before it yield a time, it returns \<^verbatim>\<open>None\<close>,
  whatever the later phases hold.
\<close>

theorem collect_results_all_or_nothing:
  "phases = [''witness_generation'', ''proof_generation'', ''proof_verification'']
   \<and> (fst (collect_results plat workspace cfg w) = Inr (Some r)
        \<longleftrightarrow> (\<exists>t1 t2 t3.
               phase_time plat workspace cfg w ''witness_generation'' = Inr (Some t1)
             \<and> phase_time plat workspace cfg w ''proof_generation'' = Inr (Some t2)
             \<and> phase_time plat workspace cfg w ''proof_verification'' = Inr (Some t3)
             \<and> r = \<lparr>config = cfg, witness_time_ms = t1, proof_time_ms = t2, verify_time_ms = t3\<rparr>))
   \<and> (phase_time plat workspace cfg w ''witness_generation'' = Inr None
        \<longrightarrow> fst (collect_results plat workspace cfg w) = Inr None)
   \<and> (phase_time plat workspace cfg w ''witness_generation'' = Inr (Some u1)
        \<and> phase_time plat workspace cfg w ''proof_generation'' = Inr None
        \<longrightarrow> fst (collect_results plat workspace cfg w) = Inr None)
   \<and> (phase_time plat workspace cfg w ''witness_generation'' = Inr (Some u1)
        \<and> phase_time plat workspace cfg w ''proof_generation'' = Inr (Some u2)
        \<and> phase_time plat workspace cfg w ''proof_verification'' = Inr None
        \<longrightarrow> fst (collect_results plat workspace cfg w) = Inr None)"
proof (intro conjI)
  show "phases = [''witness_generation'', ''proof_generation'', ''proof_verification'']"
    by (simp add: phases_def)
next
  show "fst (collect_results plat workspace cfg w) = Inr (Some r)
        \<longleftrightarrow> (\<exists>t1 t2 t3.
               phase_time plat workspace cfg w ''witness_generation'' = Inr (Some t1)
             \<and> phase_time plat workspace cfg w ''proof_generation'' = Inr (Some t2)
             \<and> phase_time plat workspace cfg w ''proof_verification'' = Inr (Some t3)
             \<and> r = \<lparr>config = cfg, witness_time_ms = t1, proof_time_ms = t2, verify_time_ms = t3\<rparr>)"
    unfolding collect_results_fst
    by (auto split: sum.splits option.splits)
qed (simp_all add: collect_results_fst)

theorem collect_results_all_or_nothing_witness:
  "fst (collect_results exact_platform [] \<lparr>lanes = 1, iterations = 8192\<rparr>
     (start_world (criterion_tree
        [(''iterated_f_witness_generation'',
            Dir [(''iterations_8192_run'', bench_dir_with (Json (mean_estimate (PyFloat 1500000))))]),
         (''iterated_f_proof_generation'',
            Dir [(''iterations_8192_run'', bench_dir_with (Json (mean_estimate (PyFloat 2300000))))]),
         (''iterated_f_proof_verification'',
            Dir [(''iterations_8192_run'', bench_dir_with (Json (mean_estimate (PyFloat 500000))))])])
        Map.empty))
   = Inr (Some \<lparr>config = \<lparr>lanes = 1, iterations = 8192\<rparr>, witness_time_ms = 3 / 2,
                 proof_time_ms = 23 / 10, verify_time_ms = 1 / 2\<rparr>)
   \<and> fst (collect_results exact_platform [] \<lparr>lanes = 1, iterations = 8192\<rparr>
     (start_world (criterion_tree
        [(''iterated_f_witness_generation'',
            Dir [(''iterations_8192_run'', bench_dir_with (Json (mean_estimate (PyFloat 1500000))))]),
         (''iterated_f_proof_verification'',
            Dir [(''iterations_8192_run'', bench_dir_with (Json (mean_estimate (PyFloat 500000))))])])
        Map.empty))
   = Inr None"
proof -
  let ?cfg = "\<lparr>lanes = 1, iterations = 8192\<rparr>"
  let ?wit = "(''iterated_f_witness_generation'',
            Dir [(''iterations_8192_run'', bench_dir_with (Json (mean_estimate (PyFloat (1500000::real)))))])"
  let ?gen = "(''iterated_f_proof_generation'',
            Dir [(''iterations_8192_run'', bench_dir_with (Json (mean_estimate (PyFloat (2300000::real)))))])"
  let ?ver = "(''iterated_f_proof_verification'',
            Dir [(''iterations_8192_run'', bench_dir_with (Json (mean_estimate (PyFloat (500000::real)))))])"
  let ?full = "start_world (criterion_tree [?wit, ?gen, ?ver]) Map.empty"
  let ?part = "start_world (criterion_tree [?wit, ?ver]) Map.empty"
  have f1: "phase_time exact_platform [] ?cfg ?full ''witness_generation'' = Inr (Some (3 / 2))"
    by (simp add: phase_eval)
  have f2: "phase_time exact_platform [] ?cfg ?full ''proof_generation'' = Inr (Some (23 / 10))"
    by (simp add: phase_eval)
  have f3: "phase_time exact_platform [] ?cfg ?full ''proof_verification'' = Inr (Some (1 / 2))"
    by (simp add: phase_eval)
  have p1: "phase_time exact_platform [] ?cfg ?part ''witness_generation'' = Inr (Some (3 / 2))"
    by (simp add: phase_eval)
  have p2: "phase_time exact_platform [] ?cfg ?part ''proof_generation'' = Inr None"
    by (simp add: phase_eval)
  from collect_results_all_or_nothing
         [where plat = exact_platform and workspace = "[]" and cfg = ?cfg and w = ?full
            and r = "\<lparr>config = ?cfg, witness_time_ms = 3 / 2, proof_time_ms = 23 / 10,
                       verify_time_ms = 1 / 2\<rparr>"]
       f1 f2 f3
  have full: "fst (collect_results exact_platform [] ?cfg ?full)
      = Inr (Some \<lparr>config = ?cfg, witness_time_ms = 3 / 2, proof_time_ms = 23 / 10,
                    verify_time_ms = 1 / 2\<rparr>)"
    by blast
  from collect_results_all_or_nothing
         [where plat = exact_platform and workspace = "[]" and cfg = ?cfg and w = ?part
            and ?u1.0 = "3 / 2"]
       p1 p2
  have part: "fst (collect_results exact_platform [] ?cfg ?part) = Inr None"
    by blast
  show ?thesis
    using full part by simp
qed

section \<open>Formatting a power of two\<close>

text \<open>
  C9. For every exponent \<open>k\<close>, \<^verbatim>\<open>format_power_of_two\<close> renders \<open>2^k\<close> in exponent form,
  \<^verbatim>\<open>$2^{k}$\<close>; for every positive integer that is not a power of two it returns the
  decimal string of the integer.
\<close>

theorem format_power_of_two_spec:
  "format_power_of_two (2 ^ k) = ''$2^{'' @ str_int (int k) @ ''}$''
   \<and> (0 < n \<and> (\<forall>j. n \<noteq> 2 ^ j) \<longrightarrow> format_power_of_two n = str_int n)"
proof (intro conjI impI)
  have pos: "(0::int) < 2 ^ k" by simp
  have z: "(2 ^ k :: int) AND (2 ^ k - 1) = 0"
    using pow2_int [OF pos] by blast
  have "nat ((2::int) ^ k) = 2 ^ k" by (simp add: nat_power_eq)
  then have l: "ilog2 (nat ((2::int) ^ k)) = k" by (simp only: ilog2_power)
  show "format_power_of_two (2 ^ k) = ''$2^{'' @ str_int (int k) @ ''}$''"
    unfolding format_power_of_two_def Let_def l using z pos by simp
next
  assume a: "0 < n \<and> (\<forall>j. n \<noteq> 2 ^ j)"
  then have "n AND (n - 1) \<noteq> 0" using pow2_int [of n] by blast
  then show "format_power_of_two n = str_int n"
    by (simp add: format_power_of_two_def)
qed

theorem format_power_of_two_spec_witness:
  "format_power_of_two 8192 = ''$2^{13}$'' \<and> format_power_of_two 12 = ''12''"
proof -
  have "(12::int) AND (12 - 1) \<noteq> 0" by simp
  then have h: "(0::int) < 12 \<and> (\<forall>j. (12::int) \<noteq> 2 ^ j)"
    using pow2_int [of 12] by simp
  have e: "(2::int) ^ 13 = 8192" by simp
  from format_power_of_two_spec [where k = 13 and n = 12] h
  have "format_power_of_two (2 ^ 13) = ''$2^{'' @ str_int (int 13) @ ''}$''
        \<and> format_power_of_two 12 = str_int 12"
    by blast
  then show ?thesis
    unfolding e by (simp add: str_eval)
qed

section \<open>Separators of the table\<close>

text \<open>
  C8. The loop of \<^verbatim>\<open>generate_latex_table\<close> appends, for the first result, its row alone,
  and for every later result its row, preceded by one \<^verbatim>\<open>\midrule\<close> line exactly when its
  \<open>lanes\<close> differs from that of the result before it. A row is never a \<^verbatim>\<open>\midrule\<close> line,
  so the number of separators among the lines of the loop is the number of consecutive
  pairs of results with different \<open>lanes\<close>; the lines of the loop start and end with a
  row. This holds for every list of results. The table is the fixed header, the lines of
  the loop and the fixed footer.
\<close>

theorem separators_at_lane_changes:
  "table_loop plat None [] = []
   \<and> table_loop plat None (r # rs) =
       table_row plat r #
       concat (map (\<lambda>(prev, cur).
                      (if lanes (config cur) \<noteq> lanes (config prev) then [midrule] else [])
                      @ [table_row plat cur])
                 (zip (r # rs) rs))
   \<and> table_row plat r \<noteq> midrule
   \<and> length (filter (\<lambda>l. l = midrule) (table_loop plat None results))
       = length (filter (\<lambda>(prev, cur). lanes (config cur) \<noteq> lanes (config prev))
                   (zip results (tl results)))
   \<and> generate_latex_table plat results =
       join_lines (table_header @ table_loop plat None results @ table_footer)"
proof (intro conjI)
  show "table_loop plat None [] = []" by simp
next
  show first: "table_loop plat None (r # rs) =
       table_row plat r #
       concat (map (\<lambda>(prev, cur).
                      (if lanes (config cur) \<noteq> lanes (config prev) then [midrule] else [])
                      @ [table_row plat cur])
                 (zip (r # rs) rs))" for r rs
    by (simp add: Let_def table_loop_Some)
  show "table_row plat r \<noteq> midrule" by (rule table_row_not_midrule)
  show "length (filter (\<lambda>l. l = midrule) (table_loop plat None results))
       = length (filter (\<lambda>(prev, cur). lanes (config cur) \<noteq> lanes (config prev))
                   (zip results (tl results)))"
  proof (cases results)
    case Nil
    then show ?thesis by simp
  next
    case (Cons a as)
    show ?thesis
      unfolding Cons first list.sel
      by (simp add: table_row_not_midrule count_midrule_concat)
  qed
  show "generate_latex_table plat results =
       join_lines (table_header @ table_loop plat None results @ table_footer)"
    by (simp add: generate_latex_table_def)
qed


section \<open>The environment of the child process\<close>

text \<open>
  C10. \<^verbatim>\<open>run_benchmark\<close> leaves \<^verbatim>\<open>os.environ\<close> as it was and starts one child, with the
  environment \<open>bench_env\<close> of the parent environment: \<^verbatim>\<open>ITERATIONS\<close> and \<^verbatim>\<open>LANES\<close> are the
  decimal strings of the configuration, \<^verbatim>\<open>RUSTFLAGS\<close> is its value in the parent (empty when
  absent) followed by \<^verbatim>\<open> -C target-cpu=native\<close>, and every other variable has the value it
  has in the parent, or is absent as it is there. The result of \<^verbatim>\<open>run_benchmark\<close> is that
  of the child run with this environment.
\<close>

theorem run_benchmark_environment:
  "environ (snd (run_benchmark plat workspace cfg w)) = environ w
   \<and> map env (spawned (snd (run_benchmark plat workspace cfg w)))
       = map env (spawned w) @ [bench_env (environ w) cfg]
   \<and> bench_env e cfg ''ITERATIONS'' = Some (str_int (iterations cfg))
   \<and> bench_env e cfg ''LANES'' = Some (str_int (lanes cfg))
   \<and> bench_env e cfg ''RUSTFLAGS''
       = Some ((case e ''RUSTFLAGS'' of None \<Rightarrow> [] | Some v \<Rightarrow> v) @ '' -C target-cpu=native'')
   \<and> (\<forall>k. k \<noteq> ''ITERATIONS'' \<and> k \<noteq> ''LANES'' \<and> k \<noteq> ''RUSTFLAGS'' \<longrightarrow> bench_env e cfg k = e k)
   \<and> (\<forall>rc captured t'.
         subprocess_run plat cargo_argv workspace (bench_env (environ w) cfg) (fs w) = Inr (rc, captured, t')
         \<longrightarrow> fst (run_benchmark plat workspace cfg w) = Inr (rc = 0)
             \<and> fs (snd (run_benchmark plat workspace cfg w)) = t')"
proof (intro conjI allI impI)
  show "environ (snd (run_benchmark plat workspace cfg w)) = environ w"
    by (simp add: run_benchmark_def Let_def print_out_def print_err_def split: sum.splits prod.splits)
  show "map env (spawned (snd (run_benchmark plat workspace cfg w)))
       = map env (spawned w) @ [bench_env (environ w) cfg]"
    by (simp add: run_benchmark_def Let_def print_out_def print_err_def split: sum.splits prod.splits)
  show "bench_env e cfg ''ITERATIONS'' = Some (str_int (iterations cfg))"
    by (simp add: bench_env_def Let_def)
  show "bench_env e cfg ''LANES'' = Some (str_int (lanes cfg))"
    by (simp add: bench_env_def Let_def)
  show "bench_env e cfg ''RUSTFLAGS''
       = Some ((case e ''RUSTFLAGS'' of None \<Rightarrow> [] | Some v \<Rightarrow> v) @ '' -C target-cpu=native'')"
    by (simp add: bench_env_def Let_def)
next
  fix k assume "k \<noteq> ''ITERATIONS'' \<and> k \<noteq> ''LANES'' \<and> k \<noteq> ''RUSTFLAGS''"
  then show "bench_env e cfg k = e k" by (simp add: bench_env_other)
next
  fix rc captured t'
  assume a: "subprocess_run plat cargo_argv workspace (bench_env (environ w) cfg) (fs w) = Inr (rc, captured, t')"
  then show "fst (run_benchmark plat workspace cfg w) = Inr (rc = 0)"
    by (simp add: run_benchmark_def Let_def print_out_def print_err_def)
  from a show "fs (snd (run_benchmark plat workspace cfg w)) = t'"
    by (simp add: run_benchmark_def Let_def print_out_def print_err_def)
qed

theorem run_benchmark_environment_witness:
  "bench_env [''PATH'' \<mapsto> ''/usr/bin'', ''RUSTFLAGS'' \<mapsto> ''-O''] \<lparr>lanes = 4, iterations = 2048\<rparr> ''PATH''
     = Some ''/usr/bin''
   \<and> fst (run_benchmark exact_platform [] \<lparr>lanes = 4, iterations = 2048\<rparr>
            (start_world (Dir []) [''PATH'' \<mapsto> ''/usr/bin'', ''RUSTFLAGS'' \<mapsto> ''-O'']))
     = Inr True"
proof -
  let ?e = "[''PATH'' \<mapsto> ''/usr/bin'', ''RUSTFLAGS'' \<mapsto> ''-O'']"
  let ?cfg = "\<lparr>lanes = 4, iterations = 2048\<rparr>"
  let ?w = "start_world (Dir []) ?e :: real world"
  have h1: "''PATH'' \<noteq> ''ITERATIONS'' \<and> ''PATH'' \<noteq> ''LANES'' \<and> ''PATH'' \<noteq> ''RUSTFLAGS''"
    by simp
  have h2: "subprocess_run exact_platform cargo_argv [] (bench_env (environ ?w) ?cfg) (fs ?w)
              = Inr (0, [], Dir [])"
    by (simp add: exact_platform_def start_world_def)
  note t = run_benchmark_environment
         [where plat = exact_platform and workspace = "[]" and cfg = ?cfg and w = ?w and e = ?e]
  note rest = t [THEN conjunct2, THEN conjunct2, THEN conjunct2, THEN conjunct2, THEN conjunct2]
  have "bench_env ?e ?cfg ''PATH'' = ?e ''PATH''"
    by (rule rest [THEN conjunct1, rule_format, OF h1])
  moreover have "fst (run_benchmark exact_platform [] ?cfg ?w) = Inr ((0::int) = 0)"
    by (rule rest [THEN conjunct2, rule_format, OF h2, THEN conjunct1])
  ultimately show ?thesis by simp
qed

section \<open>The exit code\<close>

text \<open>
  C5. The program is to exit with code 0 on success and with code 1 when a benchmark
  invocation returns a non-zero status or when no configuration yields a result; missing
  or malformed data of a configuration alone is never to cause a non-zero exit as long as
  one result is collected. With the benchmarks skipped and complete statistics for the
  first configuration, so that one result is collected, the statistics file \<^verbatim>\<open>{}\<close> for the
  second configuration leaves the exit code at 0, as claimed. The malformed statistics
  file \<^verbatim>\<open>{"mean": 5}\<close> in its place does not: \<^verbatim>\<open>TypeError\<close> leaves \<^verbatim>\<open>read_benchmark_time\<close>,
  \<^verbatim>\<open>collect_results\<close> and \<^verbatim>\<open>main\<close>, and the process ends with status 1.
\<close>

theorem malformed_statistics_end_the_run:
  "fst (collect_results exact_platform [] \<lparr>lanes = 1, iterations = 8192\<rparr>
          (start_world (sample_tree (Json (PyDict [(''mean'', PyInt 5)]))) Map.empty))
     = Inr (Some \<lparr>config = \<lparr>lanes = 1, iterations = 8192\<rparr>, witness_time_ms = 3 / 2,
                   proof_time_ms = 23 / 10, verify_time_ms = 1 / 2\<rparr>)
   \<and> fst (main exact_platform [] \<lparr>output_arg = None, skip_run = True\<rparr>
            (start_world (sample_tree (Json (PyDict [(''mean'', PyInt 5)]))) Map.empty))
     = Inl TypeError
   \<and> exit_status (fst (main exact_platform [] \<lparr>output_arg = None, skip_run = True\<rparr>
            (start_world (sample_tree (Json (PyDict [(''mean'', PyInt 5)]))) Map.empty)))
     = 1
   \<and> exit_status (fst (main exact_platform [] \<lparr>output_arg = None, skip_run = True\<rparr>
            (start_world (sample_tree (Json (PyDict []))) Map.empty)))
     = 0"
proof -
  let ?a = "\<lparr>output_arg = None, skip_run = True\<rparr>"
  let ?w = "start_world (sample_tree (Json (PyDict []))) Map.empty"
  let ?c = "\<lparr>lanes = 1, iterations = 8192\<rparr>"
  have h1: "(if \<not> skip_run ?a
            then run_all exact_platform [] BENCH_CONFIGS (print_out ''Running benchmarks...'' ?w)
            else (Inr True, ?w)) = (Inr True, ?w)"
    by simp
  have h2: "\<forall>cfg\<in>set BENCH_CONFIGS. \<exists>x. fst (collect_results exact_platform [] cfg ?w) = Inr x"
    by (simp add: BENCH_CONFIGS_def collect_results_fst phase_eval sample_tree_def)
  have h3: "\<forall>p s. output_arg ?a = Some p \<longrightarrow> (\<exists>t'. write_text exact_platform p s (fs ?w) = Inr t')"
    by simp
  have "?c \<in> set BENCH_CONFIGS" by (simp add: BENCH_CONFIGS_def)
  moreover have "collected exact_platform [] ?w ?c \<noteq> None"
    by (simp add: collected_def collect_results_fst phase_eval sample_tree_def)
  ultimately have h4: "\<exists>cfg\<in>set BENCH_CONFIGS. collected exact_platform [] ?w cfg \<noteq> None"
    by (rule bexI [rotated])
  have "fst (main exact_platform [] ?a ?w)
          = Inr (if \<exists>cfg\<in>set BENCH_CONFIGS. collected exact_platform [] ?w cfg \<noteq> None then 0 else 1)"
    by (rule main_after_run [OF h1 h2 h3])
  with h4 have ok: "exit_status (fst (main exact_platform [] ?a ?w)) = 0"
    by (simp add: exit_status_def)
  have bad: "fst (collect_results exact_platform [] \<lparr>lanes = 1, iterations = 8192\<rparr>
          (start_world (sample_tree (Json (PyDict [(''mean'', PyInt 5)]))) Map.empty))
     = Inr (Some \<lparr>config = \<lparr>lanes = 1, iterations = 8192\<rparr>, witness_time_ms = 3 / 2,
                   proof_time_ms = 23 / 10, verify_time_ms = 1 / 2\<rparr>)
   \<and> fst (main exact_platform [] \<lparr>output_arg = None, skip_run = True\<rparr>
            (start_world (sample_tree (Json (PyDict [(''mean'', PyInt 5)]))) Map.empty))
     = Inl TypeError
   \<and> exit_status (fst (main exact_platform [] \<lparr>output_arg = None, skip_run = True\<rparr>
            (start_world (sample_tree (Json (PyDict [(''mean'', PyInt 5)]))) Map.empty)))
     = 1"
    by (simp add: main_eval exit_status_def)
  from bad ok show ?thesis by (intro conjI) (elim conjE, assumption)+
qed

end
